theory Spec2Isabelle
  imports Main "HOL-Library.Multiset"
begin

section \<open>Data model of \<^verbatim>\<open>secret_hitler/board.py\<close>\<close>

text \<open>
  The module defines the exception classes, the enumerations \<^verbatim>\<open>Tile\<close> and
  \<^verbatim>\<open>PresidentialPower\<close>, the table \<^verbatim>\<open>NUM_PLAYERS_TO_BOARD_CONFIG\<close>, the two winning
  thresholds and the class \<^verbatim>\<open>Board\<close>. Every method of \<^verbatim>\<open>Board\<close> is embedded as a
  function from the board before the call to the outcome of the call together with the
  board after it, because several methods mutate the board before they raise.
\<close>

datatype Tile = LIBERAL_POLICY | FASCIST_POLICY

text \<open>\<^verbatim>\<open>Tile.__str__\<close>.\<close>

fun Tile_str :: "Tile \<Rightarrow> string" where
  "Tile_str LIBERAL_POLICY = ''Liberal''"
| "Tile_str FASCIST_POLICY = ''Fascist''"

datatype PresidentialPower =
  INVESTIGATE_LOYALTY | CALL_SPECIAL_ELECTION | POLICY_PEEK | EXECUTION

text \<open>
  Modelled from the spec: the enumeration \<^verbatim>\<open>Identity\<close> and the class \<^verbatim>\<open>Player\<close> are
  imported from \<^verbatim>\<open>secret_hitler/player.py\<close>, which is not part of the sources at hand.
  The spec gives the roles Liberal, Fascist and Hitler, and a player made of an integer
  id, a display name and a secret role assigned at game start; \<^verbatim>\<open>board.py\<close> builds a
  player as \<^verbatim>\<open>Player(id, name)\<close> and later assigns its attribute \<^verbatim>\<open>identity\<close>.

  Player objects are shared by reference between the roster and the president and
  chancellor fields, and \<^verbatim>\<open>begin_game\<close> assigns \<^verbatim>\<open>identity\<close> in place. The fields
  fixed at construction are therefore kept in the record, together with the identity
  \<open>player_obj\<close> of the object, and the mutable attribute lives in a store keyed by that
  object identity (\<open>player_identity\<close> of the board below).
\<close>

datatype Identity = LIBERAL | FASCIST | HITLER

record Player =
  player_obj :: nat
  player_id :: nat
  player_name :: string

text \<open>
  The exceptions the methods can raise. The first four are the classes of the module
  with their payload; \<open>NameError\<close>, \<open>IndexError\<close> and \<open>TypeError\<close> are the built-in
  exceptions that the interpreter raises for an unbound name, a list index out of range
  and a subscript of \<^verbatim>\<open>None\<close>.
\<close>

datatype error =
    DuplicatePlayerNameError string
  | NonexistentPlayerNameError string
  | NonexistentTileError Tile
  | InvalidNumPlayersError nat
  | NameError string
  | IndexError
  | TypeError

text \<open>
  \<^verbatim>\<open>NUM_PLAYERS_TO_BOARD_CONFIG\<close>: number of players to the number of liberals, the
  number of fascists and the list of presidential powers.
\<close>

definition NUM_PLAYERS_TO_BOARD_CONFIG ::
    "(nat \<times> (nat \<times> nat \<times> PresidentialPower option list)) list" where
  "NUM_PLAYERS_TO_BOARD_CONFIG =
    [(5, (3, 1, [None, None, Some POLICY_PEEK, Some EXECUTION, Some EXECUTION, None])),
     (6, (4, 1, [None, None, Some POLICY_PEEK, Some EXECUTION, Some EXECUTION, None])),
     (7, (4, 2, [None, Some INVESTIGATE_LOYALTY, Some CALL_SPECIAL_ELECTION,
                 Some EXECUTION, Some EXECUTION, None])),
     (8, (5, 2, [None, Some INVESTIGATE_LOYALTY, Some CALL_SPECIAL_ELECTION,
                 Some EXECUTION, Some EXECUTION, None])),
     (9, (5, 3, [Some INVESTIGATE_LOYALTY, Some INVESTIGATE_LOYALTY,
                 Some CALL_SPECIAL_ELECTION, Some EXECUTION, Some EXECUTION, None])),
     (10, (6, 3, [Some INVESTIGATE_LOYALTY, Some INVESTIGATE_LOYALTY,
                  Some CALL_SPECIAL_ELECTION, Some EXECUTION, Some EXECUTION, None]))]"

definition LIBERAL_WINNING_PROGRESS :: int where
  "LIBERAL_WINNING_PROGRESS = 5"

definition FASCIST_WINNING_PROGRESS :: int where
  "FASCIST_WINNING_PROGRESS = 6"

text \<open>
  The attributes of a \<^verbatim>\<open>Board\<close>, in the order of \<^verbatim>\<open>__init__\<close>. The attribute
  \<^verbatim>\<open>updates\<close> is a Python set of field names; it is kept as a list without
  duplicates, with \<open>List.insert\<close> for \<^verbatim>\<open>set.add\<close>. The last two fields are the store
  of the \<^verbatim>\<open>identity\<close> attribute of the player objects and the next unused object
  identity.
\<close>

record Board =
  players :: "Player list"
  eliminated_players :: "Player list"
  president_id :: int
  chancellor :: "Player option"
  prev_president :: "Player option"
  prev_chancellor :: "Player option"
  nominated_chancellor :: "Player option"
  unused_tiles :: "Tile list"
  discarded_tiles :: "Tile list"
  drawn_tiles :: "Tile list"
  latest_policy :: "Tile option"
  liberal_progress :: int
  fascist_progress :: int
  fascist_powers :: "PresidentialPower option list option"
  updates :: "string list"
  player_identity :: "nat \<rightharpoonup> Identity"
  next_obj :: nat

type_synonym 'a outcome = "(error + 'a) \<times> Board"

section \<open>The random source\<close>

text \<open>
  \<^verbatim>\<open>random.shuffle(x)\<close> of the standard library runs
  \<^verbatim>\<open>for i in reversed(range(1, len(x))): j = randbelow(i + 1); x[i], x[j] = x[j], x[i]\<close>.
  The outcomes of the successive \<^verbatim>\<open>randbelow\<close> calls are an argument \<open>rs\<close> of the
  model: each is reduced into its range \<open>0..i\<close>, and an exhausted list yields \<open>0\<close>.
\<close>

fun shuffle_from :: "nat \<Rightarrow> nat list \<Rightarrow> 'a list \<Rightarrow> 'a list" where
  "shuffle_from 0 rs xs = xs"
| "shuffle_from (Suc k) [] xs =
     shuffle_from k [] (xs[Suc k := xs ! 0, 0 := xs ! Suc k])"
| "shuffle_from (Suc k) (r # rs) xs =
     (let j = r mod (Suc (Suc k))
      in shuffle_from k rs (xs[Suc k := xs ! j, j := xs ! Suc k]))"

definition shuffle :: "nat list \<Rightarrow> 'a list \<Rightarrow> 'a list" where
  "shuffle rs xs = shuffle_from (length xs - 1) rs xs"

section \<open>The methods of \<^verbatim>\<open>Board\<close>\<close>

text \<open>\<^verbatim>\<open>Board.__init__\<close>; \<open>rs\<close> drives the shuffle of the fresh deck.\<close>

definition Board_init :: "nat list \<Rightarrow> Board" where
  "Board_init rs =
    \<lparr> players = [],
      eliminated_players = [],
      president_id = 0,
      chancellor = None,
      prev_president = None,
      prev_chancellor = None,
      nominated_chancellor = None,
      unused_tiles = shuffle rs (replicate 6 LIBERAL_POLICY @ replicate 11 FASCIST_POLICY),
      discarded_tiles = [],
      drawn_tiles = [],
      latest_policy = None,
      liberal_progress = 0,
      fascist_progress = 0,
      fascist_powers = None,
      updates = [],
      player_identity = Map.empty,
      next_obj = 0 \<rparr>"

definition register_update :: "string \<Rightarrow> Board \<Rightarrow> Board" where
  "register_update prop b = b\<lparr>updates := List.insert prop (updates b)\<rparr>"

text \<open>
  The values of the response dictionary of \<^verbatim>\<open>extract_updates\<close>: names, counts, labels
  and lists of them.
\<close>

datatype pyvalue = PyNone | PyInt int | PyStr string | PyList "pyvalue list"

text \<open>
  The class attribute \<^verbatim>\<open>private_state_translations\<close>: field name to the lambda that
  redacts the field, or \<^verbatim>\<open>None\<close>. The lambdas are, in the order of the table, the
  names of a list of players, the player at an index of the roster, the length of a
  list and the labels of a list of tiles.
\<close>

datatype translation = NamesOf | PlayerAt | LenOf | StrsOf

definition private_state_translations :: "(string \<times> translation option) list" where
  "private_state_translations =
    [(''players'', Some NamesOf),
     (''eliminated_players'', Some NamesOf),
     (''president'', Some PlayerAt),
     (''chancellor'', None),
     (''nominated_chancellor'', None),
     (''unused_tiles'', Some LenOf),
     (''discarded_tiles'', Some LenOf),
     (''drawn_tiles'', Some StrsOf),
     (''liberal_progress'', None),
     (''fascist_progress'', None)]"

text \<open>
  The loop \<^verbatim>\<open>for prop in new_updates\<close> of \<^verbatim>\<open>extract_updates\<close>. The first expression
  that an iteration evaluates is the bare name \<^verbatim>\<open>private_state_translations\<close>. That
  name is bound in the body of the class, which is not a scope of the methods defined
  in it, and it is neither a local of the method, a global of the module nor a built-in:
  the lookup raises \<^verbatim>\<open>NameError\<close>, so no iteration ever stores into \<^verbatim>\<open>response\<close>.
\<close>

fun extract_loop ::
    "string list \<Rightarrow> Board \<Rightarrow> (string \<rightharpoonup> pyvalue) \<Rightarrow> error + (string \<rightharpoonup> pyvalue)" where
  "extract_loop [] b response = Inr response"
| "extract_loop (prop # props) b response = Inl (NameError ''private_state_translations'')"

text \<open>
  \<^verbatim>\<open>extract_updates(self, custom_updates=None)\<close>: \<^verbatim>\<open>custom_updates or self.updates\<close>
  takes the pending set when the argument is \<^verbatim>\<open>None\<close> or empty. The pending set is
  reset only after the loop, so an exception of the loop leaves it as it was.
\<close>

definition extract_updates :: "string list option \<Rightarrow> Board \<Rightarrow> (string \<rightharpoonup> pyvalue) outcome" where
  "extract_updates custom_updates b =
    (let new_updates = (case custom_updates of
                          None \<Rightarrow> updates b
                        | Some c \<Rightarrow> if c = [] then updates b else c)
     in case extract_loop new_updates b Map.empty of
          Inl e \<Rightarrow> (Inl e, b)
        | Inr response \<Rightarrow> (Inr response, b\<lparr>updates := []\<rparr>))"

text \<open>
  \<^verbatim>\<open>get_full_state\<close> evaluates the arguments of its call
  \<^verbatim>\<open>self.extract_updates(self, private_state_translations.keys())\<close> first, and the
  second argument is again the unbound bare name: the method raises \<^verbatim>\<open>NameError\<close>
  before \<^verbatim>\<open>extract_updates\<close> is entered, whatever the board.
\<close>

definition get_full_state :: "Board \<Rightarrow> (string \<rightharpoonup> pyvalue) outcome" where
  "get_full_state b = (Inl (NameError ''private_state_translations''), b)"

text \<open>
  \<^verbatim>\<open>add_player\<close>: the update is registered first, then the name is looked for among
  \<^verbatim>\<open>self.players\<close>, the active players.
\<close>

definition add_player :: "string \<Rightarrow> Board \<Rightarrow> unit outcome" where
  "add_player name b =
    (let b1 = register_update ''players'' b
     in if name \<in> set (map player_name (players b1))
        then (Inl (DuplicatePlayerNameError name), b1)
        else (Inr (),
              b1\<lparr>players := players b1 @
                    [\<lparr>player_obj = next_obj b1,
                      player_id = length (players b1),
                      player_name = name\<rparr>],
                 next_obj := Suc (next_obj b1)\<rparr>))"

fun get_player_loop :: "string \<Rightarrow> Player list \<Rightarrow> error + Player" where
  "get_player_loop name [] = Inl (NonexistentPlayerNameError name)"
| "get_player_loop name (p # ps) =
     (if player_name p = name then Inr p else get_player_loop name ps)"

definition get_player :: "string \<Rightarrow> Board \<Rightarrow> error + Player" where
  "get_player name b = get_player_loop name (players b)"

text \<open>
  \<^verbatim>\<open>begin_game\<close>. The identities list has one entry per player for each of the six
  configurations, so the assignment loop never reads past its end.
\<close>

definition begin_game :: "nat list \<Rightarrow> Board \<Rightarrow> unit outcome" where
  "begin_game rs b =
    (let b1 = register_update ''fascist_powers'' (register_update ''players'' b)
     in case map_of NUM_PLAYERS_TO_BOARD_CONFIG (length (players b1)) of
          None \<Rightarrow> (Inl (InvalidNumPlayersError (length (players b1))), b1)
        | Some (num_liberals, num_fascists, powers) \<Rightarrow>
            (let identities = shuffle rs (replicate num_liberals LIBERAL
                                          @ replicate num_fascists FASCIST
                                          @ [HITLER])
             in (Inr (),
                 b1\<lparr>player_identity :=
                       fold (\<lambda>(p, i) store. store(player_obj p \<mapsto> i))
                            (zip (players b1) identities) (player_identity b1),
                    fascist_powers := Some powers\<rparr>)))"

text \<open>
  Subscript of a Python list by an integer: a negative index counts from the end, and
  an index outside the list raises \<^verbatim>\<open>IndexError\<close>.
\<close>

definition list_getitem :: "'a list \<Rightarrow> int \<Rightarrow> error + 'a" where
  "list_getitem xs i =
    (if 0 \<le> i \<and> i < int (length xs) then Inr (xs ! nat i)
     else if i < 0 \<and> - int (length xs) \<le> i then Inr (xs ! nat (int (length xs) + i))
     else Inl IndexError)"

definition get_president :: "Board \<Rightarrow> error + Player" where
  "get_president b = list_getitem (players b) (president_id b)"

text \<open>
  \<^verbatim>\<open>advance_president\<close>. The right-hand side of its last statement,
  \<^verbatim>\<open>(president_id + 1) % len(self.players)\<close>, reads the bare name \<^verbatim>\<open>president_id\<close>,
  which is not bound in any scope of the method: once \<^verbatim>\<open>prev_president\<close> is stored,
  the statement raises \<^verbatim>\<open>NameError\<close> and \<^verbatim>\<open>self.president_id\<close> is not assigned.
\<close>

definition advance_president :: "Board \<Rightarrow> unit outcome" where
  "advance_president b =
    (let b1 = register_update ''president_id'' b
     in case get_president b1 of
          Inl e \<Rightarrow> (Inl e, b1)
        | Inr p \<Rightarrow> (Inl (NameError ''president_id''), b1\<lparr>prev_president := Some p\<rparr>))"

text \<open>\<^verbatim>\<open>draw_three_tiles\<close>; \<open>rs\<close> drives the shuffle of the discarded tiles.\<close>

definition draw_three_tiles :: "nat list \<Rightarrow> Board \<Rightarrow> unit outcome" where
  "draw_three_tiles rs b =
    (let b1 = (if length (unused_tiles b) < 3
               then register_update ''discarded_tiles''
                      (register_update ''unused_tiles''
                         (b\<lparr>unused_tiles := unused_tiles b @ shuffle rs (discarded_tiles b),
                            discarded_tiles := []\<rparr>))
               else b);
         b2 = b1\<lparr>drawn_tiles := take 3 (unused_tiles b1),
                 unused_tiles := drop 3 (unused_tiles b1)\<rparr>
     in (Inr (), register_update ''unused_tiles'' (register_update ''drawn_tiles'' b2)))"

text \<open>
  \<^verbatim>\<open>discard_tile\<close>; \<^verbatim>\<open>list.remove\<close> deletes the first occurrence. The test
  \<^verbatim>\<open>len(self.drawn_tiles) == 1\<close> followed by \<^verbatim>\<open>self.drawn_tiles[0]\<close> is the match
  against a one-element list.
\<close>

definition enact_policy :: "Tile \<Rightarrow> Board \<Rightarrow> Board" where
  "enact_policy t b =
    (let b1 = b\<lparr>latest_policy := Some t\<rparr>;
         b2 = (if latest_policy b1 = Some LIBERAL_POLICY
               then b1\<lparr>liberal_progress := liberal_progress b1 + 1\<rparr> else b1);
         b3 = (if latest_policy b2 = Some FASCIST_POLICY
               then b2\<lparr>fascist_progress := fascist_progress b2 + 1\<rparr> else b2)
     in register_update ''drawn_tiles'' (b3\<lparr>drawn_tiles := []\<rparr>))"

definition discard_tile :: "Tile \<Rightarrow> Board \<Rightarrow> unit outcome" where
  "discard_tile tile b =
    (if tile \<notin> set (drawn_tiles b) then (Inl (NonexistentTileError tile), b)
     else (let b1 = b\<lparr>drawn_tiles := remove1 tile (drawn_tiles b),
                      discarded_tiles := discarded_tiles b @ [tile]\<rparr>;
               b2 = register_update ''discarded_tiles'' (register_update ''drawn_tiles'' b1)
           in case drawn_tiles b2 of
                [t] \<Rightarrow> (Inr (), enact_policy t b2)
              | _ \<Rightarrow> (Inr (), b2)))"

definition get_winner :: "Board \<Rightarrow> Tile option" where
  "get_winner b =
    (if liberal_progress b = LIBERAL_WINNING_PROGRESS then Some LIBERAL_POLICY
     else if fascist_progress b = FASCIST_WINNING_PROGRESS then Some FASCIST_POLICY
     else None)"

text \<open>
  \<^verbatim>\<open>get_current_presidential_power\<close>; subscripting \<^verbatim>\<open>fascist_powers\<close> while it is
  still \<^verbatim>\<open>None\<close> raises \<^verbatim>\<open>TypeError\<close>.
\<close>

definition get_current_presidential_power :: "Board \<Rightarrow> error + PresidentialPower option" where
  "get_current_presidential_power b =
    (if latest_policy b \<noteq> Some FASCIST_POLICY then Inr None
     else if fascist_progress b = 0 then Inr None
     else case fascist_powers b of
            None \<Rightarrow> Inl TypeError
          | Some powers \<Rightarrow> list_getitem powers (fascist_progress b - 1))"

section \<open>Calls, runs and the tile count\<close>

text \<open>
  The number of enacted tiles is not an attribute of the board: an enactment is visible
  only as an increment of one of the two progress counters, so the count of enacted
  tiles is their sum.
\<close>

definition enacted_count :: "Board \<Rightarrow> int" where
  "enacted_count b = liberal_progress b + fascist_progress b"

definition tile_total :: "Board \<Rightarrow> int" where
  "tile_total b =
     int (length (unused_tiles b)) + int (length (discarded_tiles b))
     + int (length (drawn_tiles b)) + enacted_count b"

text \<open>
  A caller that draws and discards. An exception of \<^verbatim>\<open>discard_tile\<close> reaches the
  caller, who goes on with the board as the failed call left it.
\<close>

datatype deck_call = DrawThree "nat list" | DiscardTile Tile

fun deck_step :: "deck_call \<Rightarrow> Board \<Rightarrow> Board" where
  "deck_step (DrawThree rs) b = snd (draw_three_tiles rs b)"
| "deck_step (DiscardTile tile) b = snd (discard_tile tile b)"

fun deck_run :: "deck_call list \<Rightarrow> Board \<Rightarrow> Board" where
  "deck_run [] b = b"
| "deck_run (c # cs) b = deck_run cs (deck_step c b)"

text \<open>Every draw of the run happens while no tile is drawn.\<close>

fun draws_on_empty :: "deck_call list \<Rightarrow> Board \<Rightarrow> bool" where
  "draws_on_empty [] b = True"
| "draws_on_empty (DrawThree rs # cs) b =
     (drawn_tiles b = [] \<and> draws_on_empty cs (deck_step (DrawThree rs) b))"
| "draws_on_empty (DiscardTile tile # cs) b =
     draws_on_empty cs (deck_step (DiscardTile tile) b)"

text \<open>
  The public operations of the board and the board each of them leaves behind, whether
  it returns or raises. \<^verbatim>\<open>get_winner\<close> and \<^verbatim>\<open>get_current_presidential_power\<close> only
  read the board.
\<close>

datatype call =
    AddPlayer string
  | BeginGame "nat list"
  | DrawThreeTiles "nat list"
  | DiscardOneTile Tile
  | AdvancePresident
  | GetWinner
  | GetCurrentPresidentialPower
  | ExtractUpdates "string list option"
  | GetFullState

fun board_after :: "call \<Rightarrow> Board \<Rightarrow> Board" where
  "board_after (AddPlayer name) b = snd (add_player name b)"
| "board_after (BeginGame rs) b = snd (begin_game rs b)"
| "board_after (DrawThreeTiles rs) b = snd (draw_three_tiles rs b)"
| "board_after (DiscardOneTile tile) b = snd (discard_tile tile b)"
| "board_after AdvancePresident b = snd (advance_president b)"
| "board_after GetWinner b = b"
| "board_after GetCurrentPresidentialPower b = b"
| "board_after (ExtractUpdates custom_updates) b = snd (extract_updates custom_updates b)"
| "board_after GetFullState b = snd (get_full_state b)"

section \<open>Boards used as concrete inputs\<close>

definition board_alice :: Board where
  "board_alice = snd (add_player ''alice'' (Board_init []))"

text \<open>
  The board with alice after the caller has taken the pending updates and reset the
  attribute \<^verbatim>\<open>updates\<close> itself: \<^verbatim>\<open>extract_updates\<close> resets it only when it is
  already empty.
\<close>

definition board_alice_cleared :: Board where
  "board_alice_cleared = board_alice\<lparr>updates := []\<rparr>"

definition board_alice_bob :: Board where
  "board_alice_bob = snd (add_player ''bob'' board_alice)"

text \<open>
  The board after a collaborator has executed alice: \<^verbatim>\<open>board.py\<close> has no method that
  eliminates a player, the caller moves the player between the two lists.
\<close>

definition board_alice_eliminated :: Board where
  "board_alice_eliminated =
     board_alice_bob
       \<lparr>players := filter (\<lambda>p. player_name p \<noteq> ''alice'') (players board_alice_bob),
        eliminated_players := filter (\<lambda>p. player_name p = ''alice'') (players board_alice_bob)\<rparr>"

definition board_five_draws :: Board where
  "board_five_draws = deck_run (replicate 5 (DrawThree [])) (Board_init [])"

text \<open>
  Eleven legislative sessions on a fresh board, none of them stopped by a winner: five
  liberal and six fascist policies are enacted.
\<close>

definition eleven_rounds :: "deck_call list" where
  "eleven_rounds =
    [DrawThree [], DiscardTile LIBERAL_POLICY, DiscardTile LIBERAL_POLICY,
     DrawThree [], DiscardTile LIBERAL_POLICY, DiscardTile FASCIST_POLICY,
     DrawThree [], DiscardTile FASCIST_POLICY, DiscardTile FASCIST_POLICY,
     DrawThree [], DiscardTile FASCIST_POLICY, DiscardTile FASCIST_POLICY,
     DrawThree [], DiscardTile FASCIST_POLICY, DiscardTile FASCIST_POLICY,
     DrawThree [], DiscardTile FASCIST_POLICY, DiscardTile LIBERAL_POLICY,
     DrawThree [], DiscardTile FASCIST_POLICY, DiscardTile FASCIST_POLICY,
     DrawThree [], DiscardTile FASCIST_POLICY, DiscardTile FASCIST_POLICY,
     DrawThree [], DiscardTile FASCIST_POLICY, DiscardTile FASCIST_POLICY,
     DrawThree [], DiscardTile LIBERAL_POLICY, DiscardTile FASCIST_POLICY,
     DrawThree [], DiscardTile FASCIST_POLICY, DiscardTile FASCIST_POLICY]"

definition board_both_tracks_full :: Board where
  "board_both_tracks_full = deck_run eleven_rounds (Board_init [])"

definition board_three_drawn :: Board where
  "board_three_drawn =
     deck_run [DrawThree [], DiscardTile LIBERAL_POLICY, DiscardTile LIBERAL_POLICY,
               DrawThree []] (Board_init [])"

definition board_two_drawn :: Board where
  "board_two_drawn = deck_step (DiscardTile LIBERAL_POLICY) board_three_drawn"

definition session_and_a_half :: "deck_call list" where
  "session_and_a_half = [DrawThree [], DiscardTile LIBERAL_POLICY, DiscardTile LIBERAL_POLICY,
                DrawThree [], DiscardTile FASCIST_POLICY]"

section \<open>The shuffle is a permutation\<close>

lemma length_shuffle_from: "length (shuffle_from k rs xs) = length xs"
  by (induction k rs xs rule: shuffle_from.induct) (simp_all add: Let_def)

lemma mset_shuffle_from: "k < length xs \<Longrightarrow> mset (shuffle_from k rs xs) = mset xs"
proof (induction k rs xs rule: shuffle_from.induct)
  case (1 rs xs)
  then show ?case by simp
next
  case (2 k xs)
  have "mset (xs[Suc k := xs ! 0, 0 := xs ! Suc k]) = mset xs"
    using 2(2) by (intro mset_swap) auto
  then show ?case using 2 by simp
next
  case (3 k r rs xs)
  have "r mod Suc (Suc k) < Suc (Suc k)" by simp
  then have j: "r mod Suc (Suc k) < length xs" using 3(2) by linarith
  have "mset (xs[Suc k := xs ! (r mod Suc (Suc k)), r mod Suc (Suc k) := xs ! Suc k]) = mset xs"
    using 3(2) j by (intro mset_swap) auto
  then show ?case using 3 by (simp add: Let_def)
qed

lemma length_shuffle: "length (shuffle rs xs) = length xs"
  by (simp add: shuffle_def length_shuffle_from)

lemma mset_shuffle: "mset (shuffle rs xs) = mset xs"
  by (cases xs) (simp_all add: shuffle_def mset_shuffle_from)

section \<open>Tile conservation\<close>

lemma length_take_drop: "int (length (take n xs)) + int (length (drop n xs)) = int (length xs)"
proof -
  have "length (take n xs @ drop n xs) = length xs" by simp
  then have "length (take n xs) + length (drop n xs) = length xs"
    by (simp only: length_append)
  then show ?thesis by linarith
qed

lemma length_remove1_mem: "x \<in> set xs \<Longrightarrow> length xs = Suc (length (remove1 x xs))"
  by (induction xs) auto

text \<open>A draw loses exactly the tiles that were still drawn when it was called.\<close>

lemma tile_total_draw:
  "tile_total (snd (draw_three_tiles rs b)) = tile_total b - int (length (drawn_tiles b))"
proof (cases "length (unused_tiles b) < 3")
  case True
  have "int (length (take 3 (unused_tiles b @ shuffle rs (discarded_tiles b))))
        + int (length (drop 3 (unused_tiles b @ shuffle rs (discarded_tiles b))))
        = int (length (unused_tiles b)) + int (length (discarded_tiles b))"
    by (simp only: length_take_drop length_append length_shuffle of_nat_add)
  with True show ?thesis
    by (simp add: draw_three_tiles_def tile_total_def enacted_count_def register_update_def
        Let_def del: length_take length_drop)
next
  case False
  have "int (length (take 3 (unused_tiles b))) + int (length (drop 3 (unused_tiles b)))
        = int (length (unused_tiles b))"
    by (rule length_take_drop)
  with False show ?thesis
    by (simp add: draw_three_tiles_def tile_total_def enacted_count_def register_update_def
        Let_def del: length_take length_drop)
qed

text \<open>A discard, enacting or not, failing or not, keeps the count.\<close>

lemma tile_total_discard: "tile_total (snd (discard_tile tile b)) = tile_total b"
proof (cases "tile \<in> set (drawn_tiles b)")
  case False
  then show ?thesis by (simp add: discard_tile_def)
next
  case True
  then have len: "int (length (drawn_tiles b)) = int (length (remove1 tile (drawn_tiles b))) + 1"
    using length_remove1_mem[of tile "drawn_tiles b"] by simp
  show ?thesis
  proof (cases "remove1 tile (drawn_tiles b)")
    case Nil
    with True len show ?thesis
      by (simp add: discard_tile_def tile_total_def enacted_count_def register_update_def)
  next
    case (Cons t ts)
    show ?thesis
    proof (cases ts)
      case Nil
      with Cons True len show ?thesis
        by (cases t) (simp_all add: discard_tile_def enact_policy_def tile_total_def
            enacted_count_def register_update_def)
    next
      case (Cons u us)
      with \<open>remove1 tile (drawn_tiles b) = t # ts\<close> True len show ?thesis
        by (simp add: discard_tile_def tile_total_def enacted_count_def register_update_def)
    qed
  qed
qed

lemma tile_total_Board_init: "tile_total (Board_init rs) = 17"
  by (simp add: Board_init_def tile_total_def enacted_count_def length_shuffle)

lemma tile_total_deck_run:
  "draws_on_empty cs b \<Longrightarrow> tile_total (deck_run cs b) = tile_total b"
proof (induction cs arbitrary: b)
  case Nil
  then show ?case by simp
next
  case (Cons c cs)
  show ?case
  proof (cases c)
    case (DrawThree rs)
    with Cons.prems have e: "drawn_tiles b = []" and r: "draws_on_empty cs (deck_step c b)"
      by simp_all
    from Cons.IH[OF r] e DrawThree show ?thesis by (simp add: tile_total_draw)
  next
    case (DiscardTile tile)
    with Cons.prems have r: "draws_on_empty cs (deck_step c b)" by simp
    from Cons.IH[OF r] DiscardTile show ?thesis by (simp add: tile_total_discard)
  qed
qed

lemma draws_on_empty_take: "draws_on_empty cs b \<Longrightarrow> draws_on_empty (take k cs) b"
proof (induction cs b arbitrary: k rule: draws_on_empty.induct)
  case (1 b)
  then show ?case by simp
next
  case (2 rs cs b)
  then show ?case by (cases k) simp_all
next
  case (3 tile cs b)
  then show ?case by (cases k) simp_all
qed

text \<open>
  C1, as the code has it. \<^verbatim>\<open>draw_three_tiles\<close> overwrites \<^verbatim>\<open>drawn_tiles\<close>, so the
  tiles of an unfinished session are lost by the next draw. In every run of draws and
  discards from a fresh board in which each draw is called while no tile is drawn, the
  number of undrawn, discarded and drawn tiles plus the number of enacted tiles, which
  is the sum of the two progress counters, is 17 after every prefix of the run.
\<close>

theorem tile_conservation:
  assumes "draws_on_empty cs (Board_init rs)"
  shows "tile_total (deck_run (take k cs) (Board_init rs)) = 17
         \<and> enacted_count (deck_run (take k cs) (Board_init rs))
           = liberal_progress (deck_run (take k cs) (Board_init rs))
             + fascist_progress (deck_run (take k cs) (Board_init rs))"
proof -
  from assms have "draws_on_empty (take k cs) (Board_init rs)"
    by (rule draws_on_empty_take)
  then have "tile_total (deck_run (take k cs) (Board_init rs)) = tile_total (Board_init rs)"
    by (rule tile_total_deck_run)
  then show ?thesis by (simp only: tile_total_Board_init enacted_count_def simp_thms)
qed

theorem tile_conservation_witness:
  "draws_on_empty session_and_a_half (Board_init [])
   \<and> tile_total (deck_run (take 5 session_and_a_half) (Board_init [])) = 17
   \<and> liberal_progress (deck_run (take 5 session_and_a_half) (Board_init [])) = 1"
proof -
  have h: "draws_on_empty session_and_a_half (Board_init [])"
    by code_simp
  have e: "liberal_progress (deck_run (take 5 session_and_a_half) (Board_init [])) = 1"
    by code_simp
  from tile_conservation[OF h, of 5] h e show ?thesis by blast
qed

text \<open>
  C1 as stated fails: two draws in a row from a fresh board leave 11 undrawn and 3 drawn
  tiles, nothing discarded and nothing enacted.
\<close>

theorem tile_conservation_counterexample:
  "tile_total (deck_run [DrawThree [], DrawThree []] (Board_init [])) \<noteq> 17"
  by code_simp

section \<open>Drawing three tiles\<close>

text \<open>
  C5, as the code has it. \<^verbatim>\<open>draw_three_tiles\<close> has no failure: the module defines
  no exception for an exhausted deck, and the slices \<^verbatim>\<open>[:3]\<close> and \<^verbatim>\<open>[3:]\<close> of a short
  list are short lists. If fewer than 3 tiles are undrawn it first shuffles the
  discarded tiles (a permutation of them), appends them to the undrawn ones and empties
  the discarded pile; then it moves the first 3 tiles of the undrawn pile, or all of
  them if there are fewer, into the drawn tiles, replacing what was drawn. The number
  of drawn tiles is 3 whenever undrawn and discarded together hold at least 3 tiles.
\<close>

theorem draw_three_tiles_never_fails:
  "(let pool = (if length (unused_tiles b) < 3
                then unused_tiles b @ shuffle rs (discarded_tiles b)
                else unused_tiles b);
        b' = snd (draw_three_tiles rs b)
    in fst (draw_three_tiles rs b) = Inr ()
       \<and> mset (shuffle rs (discarded_tiles b)) = mset (discarded_tiles b)
       \<and> drawn_tiles b' = take 3 pool
       \<and> unused_tiles b' = drop 3 pool
       \<and> discarded_tiles b' = (if length (unused_tiles b) < 3 then [] else discarded_tiles b)
       \<and> length (drawn_tiles b')
           = min 3 (length (unused_tiles b) + length (discarded_tiles b)))"
proof (cases "length (unused_tiles b) < 3")
  case True
  then show ?thesis
    by (simp add: draw_three_tiles_def register_update_def Let_def mset_shuffle length_shuffle)
next
  case False
  then show ?thesis
    by (simp add: draw_three_tiles_def register_update_def Let_def mset_shuffle)
qed

theorem draw_three_tiles_never_fails_witness:
  "fst (draw_three_tiles [] board_five_draws) = Inr ()
   \<and> drawn_tiles (snd (draw_three_tiles [] board_five_draws)) = [FASCIST_POLICY, LIBERAL_POLICY]
   \<and> length (drawn_tiles (snd (draw_three_tiles [] (Board_init [])))) = 3"
proof -
  have d: "drawn_tiles (snd (draw_three_tiles [] board_five_draws))
           = [FASCIST_POLICY, LIBERAL_POLICY]"
    by code_simp
  have l: "min 3 (length (unused_tiles (Board_init []))
                  + length (discarded_tiles (Board_init []))) = 3"
    by code_simp
  have "fst (draw_three_tiles [] board_five_draws) = Inr ()"
    using draw_three_tiles_never_fails[of board_five_draws "[]"] unfolding Let_def by blast
  moreover have "length (drawn_tiles (snd (draw_three_tiles [] (Board_init []))))
                 = min 3 (length (unused_tiles (Board_init []))
                          + length (discarded_tiles (Board_init [])))"
    using draw_three_tiles_never_fails[of "Board_init []" "[]"] unfolding Let_def by blast
  then have "length (drawn_tiles (snd (draw_three_tiles [] (Board_init [])))) = 3"
    by (simp only: l)
  ultimately show ?thesis using d by blast
qed

text \<open>
  C5 as stated fails: after five draws in a row from a fresh board 2 tiles are undrawn
  and none is discarded, and the sixth draw returns normally with 2 tiles drawn.
\<close>

theorem draw_three_tiles_counterexample:
  "length (unused_tiles board_five_draws) + length (discarded_tiles board_five_draws) < 3
   \<and> fst (draw_three_tiles [] board_five_draws) = Inr ()
   \<and> length (drawn_tiles (snd (draw_three_tiles [] board_five_draws))) \<noteq> 3"
  by code_simp

section \<open>Discarding and enacting\<close>

text \<open>
  C6. A discard of a tile that is among two drawn tiles leaves exactly one tile: the
  call returns normally, that tile is recorded as \<^verbatim>\<open>latest_policy\<close>, the progress
  counter of its kind grows by exactly 1, the other counter is unchanged, and no tile
  is drawn any more. A discard of a tile that is among three drawn tiles returns
  normally and leaves the two other tiles drawn, and it changes neither progress
  counter nor \<^verbatim>\<open>latest_policy\<close>: the enactment fires at one remaining tile and not
  at two. More generally, whatever the board before, a call of \<^verbatim>\<open>discard_tile\<close>
  after which 2 tiles are drawn has changed neither progress counter.
\<close>

theorem enactment_trigger:
  "(tile \<in> set (drawn_tiles b) \<and> length (drawn_tiles b) = 2 \<longrightarrow>
      (let b' = snd (discard_tile tile b); t = hd (remove1 tile (drawn_tiles b))
       in fst (discard_tile tile b) = Inr ()
          \<and> remove1 tile (drawn_tiles b) = [t]
          \<and> latest_policy b' = Some t
          \<and> drawn_tiles b' = []
          \<and> liberal_progress b'
              = liberal_progress b + (if t = LIBERAL_POLICY then 1 else 0)
          \<and> fascist_progress b'
              = fascist_progress b + (if t = FASCIST_POLICY then 1 else 0)))
   \<and> (tile \<in> set (drawn_tiles b) \<and> length (drawn_tiles b) = 3 \<longrightarrow>
        fst (discard_tile tile b) = Inr ()
        \<and> drawn_tiles (snd (discard_tile tile b)) = remove1 tile (drawn_tiles b)
        \<and> length (drawn_tiles (snd (discard_tile tile b))) = 2
        \<and> latest_policy (snd (discard_tile tile b)) = latest_policy b
        \<and> liberal_progress (snd (discard_tile tile b)) = liberal_progress b
        \<and> fascist_progress (snd (discard_tile tile b)) = fascist_progress b)
   \<and> (length (drawn_tiles (snd (discard_tile tile b))) = 2 \<longrightarrow>
        liberal_progress (snd (discard_tile tile b)) = liberal_progress b
        \<and> fascist_progress (snd (discard_tile tile b)) = fascist_progress b)"
proof (intro conjI impI)
  assume a: "tile \<in> set (drawn_tiles b) \<and> length (drawn_tiles b) = 2"
  then obtain x y where xy: "drawn_tiles b = [x, y]"
    by (cases "drawn_tiles b"; cases "tl (drawn_tiles b)") auto
  with a have "tile = x \<or> tile = y" by auto
  with xy show "let b' = snd (discard_tile tile b); t = hd (remove1 tile (drawn_tiles b))
       in fst (discard_tile tile b) = Inr ()
          \<and> remove1 tile (drawn_tiles b) = [t]
          \<and> latest_policy b' = Some t
          \<and> drawn_tiles b' = []
          \<and> liberal_progress b'
              = liberal_progress b + (if t = LIBERAL_POLICY then 1 else 0)
          \<and> fascist_progress b'
              = fascist_progress b + (if t = FASCIST_POLICY then 1 else 0)"
    by (cases x; cases y)
       (auto simp add: discard_tile_def enact_policy_def register_update_def Let_def)
next
  assume a: "tile \<in> set (drawn_tiles b) \<and> length (drawn_tiles b) = 3"
  then have "length (remove1 tile (drawn_tiles b)) = 2"
    using length_remove1_mem[of tile "drawn_tiles b"] by simp
  then obtain u v where uv: "remove1 tile (drawn_tiles b) = [u, v]"
    by (cases "remove1 tile (drawn_tiles b)"; cases "tl (remove1 tile (drawn_tiles b))") auto
  from a uv show "fst (discard_tile tile b) = Inr ()"
    by (simp add: discard_tile_def register_update_def)
  from a uv show "drawn_tiles (snd (discard_tile tile b)) = remove1 tile (drawn_tiles b)"
    by (simp add: discard_tile_def register_update_def)
  from a uv show "length (drawn_tiles (snd (discard_tile tile b))) = 2"
    by (simp add: discard_tile_def register_update_def)
  from a uv show "latest_policy (snd (discard_tile tile b)) = latest_policy b"
    by (simp add: discard_tile_def register_update_def)
  from a uv show "liberal_progress (snd (discard_tile tile b)) = liberal_progress b"
    by (simp add: discard_tile_def register_update_def)
  from a uv show "fascist_progress (snd (discard_tile tile b)) = fascist_progress b"
    by (simp add: discard_tile_def register_update_def)
next
  assume l: "length (drawn_tiles (snd (discard_tile tile b))) = 2"
  show "liberal_progress (snd (discard_tile tile b)) = liberal_progress b"
    using l by (auto simp add: discard_tile_def enact_policy_def register_update_def Let_def
        split: if_splits list.splits)
  show "fascist_progress (snd (discard_tile tile b)) = fascist_progress b"
    using l by (auto simp add: discard_tile_def enact_policy_def register_update_def Let_def
        split: if_splits list.splits)
qed

theorem enactment_trigger_witness:
  "fst (discard_tile LIBERAL_POLICY board_two_drawn) = Inr ()
   \<and> latest_policy (snd (discard_tile LIBERAL_POLICY board_two_drawn)) = Some FASCIST_POLICY
   \<and> drawn_tiles (snd (discard_tile LIBERAL_POLICY board_two_drawn)) = []
   \<and> liberal_progress (snd (discard_tile LIBERAL_POLICY board_two_drawn)) = 1
   \<and> fascist_progress (snd (discard_tile LIBERAL_POLICY board_two_drawn)) = 1
   \<and> length (drawn_tiles (snd (discard_tile LIBERAL_POLICY board_three_drawn))) = 2
   \<and> liberal_progress (snd (discard_tile LIBERAL_POLICY board_three_drawn)) = 1
   \<and> fascist_progress (snd (discard_tile LIBERAL_POLICY board_three_drawn)) = 0"
proof -
  have pre: "LIBERAL_POLICY \<in> set (drawn_tiles board_two_drawn)
             \<and> length (drawn_tiles board_two_drawn) = 2"
    by code_simp
  have rest: "hd (remove1 LIBERAL_POLICY (drawn_tiles board_two_drawn)) = FASCIST_POLICY"
    by code_simp
  have before: "liberal_progress board_two_drawn = 1" "fascist_progress board_two_drawn = 0"
    by code_simp+
  have pre3: "LIBERAL_POLICY \<in> set (drawn_tiles board_three_drawn)
              \<and> length (drawn_tiles board_three_drawn) = 3"
    by code_simp
  have before3: "liberal_progress board_three_drawn = 1" "fascist_progress board_three_drawn = 0"
    by code_simp+
  from enactment_trigger[of LIBERAL_POLICY board_two_drawn] pre rest before
  have a: "fst (discard_tile LIBERAL_POLICY board_two_drawn) = Inr ()
   \<and> latest_policy (snd (discard_tile LIBERAL_POLICY board_two_drawn)) = Some FASCIST_POLICY
   \<and> drawn_tiles (snd (discard_tile LIBERAL_POLICY board_two_drawn)) = []
   \<and> liberal_progress (snd (discard_tile LIBERAL_POLICY board_two_drawn)) = 1
   \<and> fascist_progress (snd (discard_tile LIBERAL_POLICY board_two_drawn)) = 1"
    by (simp add: Let_def)
  from enactment_trigger[of LIBERAL_POLICY board_three_drawn] pre3
  have c: "length (drawn_tiles (snd (discard_tile LIBERAL_POLICY board_three_drawn))) = 2
   \<and> liberal_progress (snd (discard_tile LIBERAL_POLICY board_three_drawn))
       = liberal_progress board_three_drawn
   \<and> fascist_progress (snd (discard_tile LIBERAL_POLICY board_three_drawn))
       = fascist_progress board_three_drawn"
    by blast
  with before3
  have b: "length (drawn_tiles (snd (discard_tile LIBERAL_POLICY board_three_drawn))) = 2
   \<and> liberal_progress (snd (discard_tile LIBERAL_POLICY board_three_drawn)) = 1
   \<and> fascist_progress (snd (discard_tile LIBERAL_POLICY board_three_drawn)) = 0"
    by (simp only:)
  from a b show ?thesis by blast
qed

section \<open>The winner\<close>

text \<open>
  C9, as the code has it. \<^verbatim>\<open>get_winner\<close> tests the liberal track first: it returns
  Liberal if and only if \<^verbatim>\<open>liberal_progress\<close> is 5, Fascist if and only if
  \<^verbatim>\<open>fascist_progress\<close> is 6 and \<^verbatim>\<open>liberal_progress\<close> is not 5, and no winner
  otherwise.
\<close>

theorem win_thresholds:
  "(get_winner b = Some LIBERAL_POLICY \<longleftrightarrow> liberal_progress b = 5)
   \<and> (get_winner b = Some FASCIST_POLICY \<longleftrightarrow> fascist_progress b = 6 \<and> liberal_progress b \<noteq> 5)
   \<and> (get_winner b = None \<longleftrightarrow> liberal_progress b \<noteq> 5 \<and> fascist_progress b \<noteq> 6)"
  by (simp add: get_winner_def LIBERAL_WINNING_PROGRESS_def FASCIST_WINNING_PROGRESS_def)

theorem win_thresholds_witness:
  "get_winner ((Board_init [])\<lparr>liberal_progress := 4, fascist_progress := 6\<rparr>) = Some FASCIST_POLICY
   \<and> get_winner ((Board_init [])\<lparr>liberal_progress := 5, fascist_progress := 5\<rparr>) = Some LIBERAL_POLICY
   \<and> get_winner ((Board_init [])\<lparr>liberal_progress := 6, fascist_progress := 7\<rparr>) = None"
  using win_thresholds[of "(Board_init [])\<lparr>liberal_progress := 4, fascist_progress := 6\<rparr>"]
        win_thresholds[of "(Board_init [])\<lparr>liberal_progress := 5, fascist_progress := 5\<rparr>"]
        win_thresholds[of "(Board_init [])\<lparr>liberal_progress := 6, fascist_progress := 7\<rparr>"]
  by simp

text \<open>
  C9 as stated fails where both tracks are full. Nothing in the board stops the
  sessions at the first winner, and after the eleven sessions of \<open>eleven_rounds\<close> on
  a fresh board \<^verbatim>\<open>liberal_progress\<close> is 5 and \<^verbatim>\<open>fascist_progress\<close> is 6: the
  winner is Liberal, not Fascist.
\<close>

theorem win_thresholds_counterexample:
  "liberal_progress board_both_tracks_full = 5
   \<and> fascist_progress board_both_tracks_full = 6
   \<and> get_winner board_both_tracks_full \<noteq> Some FASCIST_POLICY"
  by code_simp

section \<open>The roster\<close>

text \<open>
  C8, as the code has it. \<^verbatim>\<open>add_player\<close> looks for the name among the active players
  only: it fails with \<^verbatim>\<open>DuplicatePlayerNameError\<close> exactly when the name belongs to an
  active player, leaving the roster as it was, and otherwise appends one new player
  whose id is the number of active players before the call and whose name is the given
  one. The eliminated players are neither read nor changed.
\<close>

theorem add_player_duplicate_active:
  "(let r = add_player name b
    in (if name \<in> set (map player_name (players b))
        then fst r = Inl (DuplicatePlayerNameError name) \<and> players (snd r) = players b
        else fst r = Inr ()
             \<and> butlast (players (snd r)) = players b
             \<and> length (players (snd r)) = Suc (length (players b))
             \<and> player_id (last (players (snd r))) = length (players b)
             \<and> player_name (last (players (snd r))) = name)
       \<and> eliminated_players (snd r) = eliminated_players b)"
  by (simp add: add_player_def register_update_def Let_def)

theorem add_player_duplicate_active_witness:
  "fst (add_player ''alice'' board_alice_bob) = Inl (DuplicatePlayerNameError ''alice'')
   \<and> fst (add_player ''carol'' board_alice_bob) = Inr ()
   \<and> player_id (last (players (snd (add_player ''carol'' board_alice_bob)))) = 2"
proof -
  have n: "map player_name (players board_alice_bob) = [''alice'', ''bob'']"
    by code_simp
  from add_player_duplicate_active[of "''alice''" board_alice_bob] n
  have a: "fst (add_player ''alice'' board_alice_bob) = Inl (DuplicatePlayerNameError ''alice'')"
    by (simp add: Let_def)
  have l: "length (players board_alice_bob) = 2"
    using n by (metis length_map length_Cons list.size(3) numeral_2_eq_2)
  from add_player_duplicate_active[of "''carol''" board_alice_bob] n l
  have c: "fst (add_player ''carol'' board_alice_bob) = Inr ()
   \<and> player_id (last (players (snd (add_player ''carol'' board_alice_bob)))) = 2"
    by (simp add: Let_def)
  from a c show ?thesis by blast
qed

text \<open>
  C8 as stated fails for the name of an eliminated player: once alice has been moved to
  the eliminated players, a second alice is added without an error.
\<close>

theorem add_player_counterexample:
  "''alice'' \<in> set (map player_name (eliminated_players board_alice_eliminated))
   \<and> fst (add_player ''alice'' board_alice_eliminated) = Inr ()"
  by code_simp

lemma extract_loop_cases:
  "extract_loop props b response
     = (if props = [] then Inr response else Inl (NameError ''private_state_translations''))"
  by (cases props) simp_all

text \<open>
  C7, as the code has it. Apart from the pending set, no operation other than
  \<^verbatim>\<open>advance_president\<close> leaves a partial mutation behind when it fails.
  \<^verbatim>\<open>add_player\<close> and \<^verbatim>\<open>begin_game\<close> register their updates on entry, before they
  validate: when \<^verbatim>\<open>add_player\<close> fails, it fails with \<^verbatim>\<open>DuplicatePlayerNameError\<close>
  and the board is as before the call except that \<^verbatim>\<open>players\<close> has been added to the
  pending set; when \<^verbatim>\<open>begin_game\<close> fails, it fails with \<^verbatim>\<open>InvalidNumPlayersError\<close>
  and the board is as before the call except that \<^verbatim>\<open>players\<close> and
  \<^verbatim>\<open>fascist_powers\<close> have been added to the pending set. A failing
  \<^verbatim>\<open>discard_tile\<close> fails with \<^verbatim>\<open>NonexistentTileError\<close> and leaves the whole board,
  the drawn tiles and the pending set included, exactly as it was; so do a failing
  \<^verbatim>\<open>extract_updates\<close> and \<^verbatim>\<open>get_full_state\<close>. \<^verbatim>\<open>draw_three_tiles\<close> never fails,
  and \<^verbatim>\<open>get_winner\<close> and \<^verbatim>\<open>get_current_presidential_power\<close> do not change the
  board. Nothing is said of \<^verbatim>\<open>advance_president\<close>, whose failure is the defect of C4.
\<close>

theorem failure_keeps_all_but_updates:
  "(fst (add_player name b) \<noteq> Inr () \<longrightarrow>
      add_player name b
        = (Inl (DuplicatePlayerNameError name),
           b\<lparr>updates := List.insert ''players'' (updates b)\<rparr>))
   \<and> (fst (begin_game rs b) \<noteq> Inr () \<longrightarrow>
        begin_game rs b
          = (Inl (InvalidNumPlayersError (length (players b))),
             b\<lparr>updates := List.insert ''fascist_powers''
                             (List.insert ''players'' (updates b))\<rparr>))
   \<and> (fst (discard_tile tile b) \<noteq> Inr () \<longrightarrow>
        discard_tile tile b = (Inl (NonexistentTileError tile), b))
   \<and> (isl (fst (extract_updates custom_updates b)) \<longrightarrow>
        extract_updates custom_updates b
          = (Inl (NameError ''private_state_translations''), b))
   \<and> get_full_state b = (Inl (NameError ''private_state_translations''), b)
   \<and> fst (draw_three_tiles rs' b) = Inr ()
   \<and> board_after GetWinner b = b
   \<and> board_after GetCurrentPresidentialPower b = b"
proof (intro conjI impI)
  assume "fst (add_player name b) \<noteq> Inr ()"
  then show "add_player name b
        = (Inl (DuplicatePlayerNameError name),
           b\<lparr>updates := List.insert ''players'' (updates b)\<rparr>)"
    by (auto simp add: add_player_def register_update_def Let_def split: if_splits)
next
  assume "fst (begin_game rs b) \<noteq> Inr ()"
  then show "begin_game rs b
          = (Inl (InvalidNumPlayersError (length (players b))),
             b\<lparr>updates := List.insert ''fascist_powers''
                             (List.insert ''players'' (updates b))\<rparr>)"
    by (auto simp add: begin_game_def register_update_def Let_def
        split: option.splits prod.splits)
next
  assume "fst (discard_tile tile b) \<noteq> Inr ()"
  then show "discard_tile tile b = (Inl (NonexistentTileError tile), b)"
    by (auto simp add: discard_tile_def Let_def split: if_splits list.splits)
next
  assume "isl (fst (extract_updates custom_updates b))"
  then show "extract_updates custom_updates b
          = (Inl (NameError ''private_state_translations''), b)"
    by (cases custom_updates)
       (auto simp add: extract_updates_def extract_loop_cases Let_def split: if_splits)
next
  show "get_full_state b = (Inl (NameError ''private_state_translations''), b)"
    by (simp add: get_full_state_def)
next
  show "fst (draw_three_tiles rs' b) = Inr ()"
    by (simp add: draw_three_tiles_def Let_def)
next
  show "board_after GetWinner b = b" by simp
next
  show "board_after GetCurrentPresidentialPower b = b" by simp
qed

theorem failure_keeps_all_but_updates_witness:
  "add_player ''alice'' board_alice_cleared
     = (Inl (DuplicatePlayerNameError ''alice''),
        board_alice_cleared\<lparr>updates := [''players'']\<rparr>)
   \<and> begin_game [] board_alice_cleared
     = (Inl (InvalidNumPlayersError 1),
        board_alice_cleared\<lparr>updates := [''fascist_powers'', ''players'']\<rparr>)
   \<and> discard_tile LIBERAL_POLICY board_alice_cleared
     = (Inl (NonexistentTileError LIBERAL_POLICY), board_alice_cleared)
   \<and> extract_updates (Some [''players'']) board_alice_cleared
     = (Inl (NameError ''private_state_translations''), board_alice_cleared)"
proof -
  have f1: "fst (add_player ''alice'' board_alice_cleared) \<noteq> Inr ()" by code_simp
  have f2: "fst (begin_game [] board_alice_cleared) \<noteq> Inr ()" by code_simp
  have f3: "fst (discard_tile LIBERAL_POLICY board_alice_cleared) \<noteq> Inr ()" by code_simp
  have f4: "isl (fst (extract_updates (Some [''players'']) board_alice_cleared))"
    by (simp add: extract_updates_def)
  have u: "updates board_alice_cleared = []" by code_simp
  have l: "length (players board_alice_cleared) = 1" by code_simp
  from failure_keeps_all_but_updates[of "''alice''" board_alice_cleared "[]" LIBERAL_POLICY
        "Some [''players'']" "[]"] f1 f2 f3 f4 u l
  show ?thesis by simp
qed

text \<open>
  C7 as stated fails for both operations it names: \<^verbatim>\<open>begin_game\<close> on a fresh board
  raises \<^verbatim>\<open>InvalidNumPlayersError\<close> and leaves two names in the pending set, which
  was empty; and once the pending set of the board with alice has been reset, a second
  \<^verbatim>\<open>add_player\<close> of alice raises \<^verbatim>\<open>DuplicatePlayerNameError\<close> and leaves
  \<^verbatim>\<open>players\<close> in the pending set.
\<close>

theorem atomicity_counterexample:
  "fst (begin_game [] (Board_init [])) = Inl (InvalidNumPlayersError 0)
   \<and> updates (Board_init []) = []
   \<and> updates (snd (begin_game [] (Board_init []))) = [''fascist_powers'', ''players'']
   \<and> fst (add_player ''alice'' board_alice_cleared) = Inl (DuplicatePlayerNameError ''alice'')
   \<and> updates board_alice_cleared = []
   \<and> updates (snd (add_player ''alice'' board_alice_cleared)) = [''players'']"
  by code_simp

section \<open>Progress never decreases\<close>

lemma discard_tile_progress:
  "(liberal_progress (snd (discard_tile tile b)) = liberal_progress b
      \<and> fascist_progress (snd (discard_tile tile b)) = fascist_progress b)
   \<or> (liberal_progress (snd (discard_tile tile b)) = liberal_progress b + 1
      \<and> fascist_progress (snd (discard_tile tile b)) = fascist_progress b)
   \<or> (liberal_progress (snd (discard_tile tile b)) = liberal_progress b
      \<and> fascist_progress (snd (discard_tile tile b)) = fascist_progress b + 1)"
proof (cases "tile \<in> set (drawn_tiles b)")
  case False
  then show ?thesis by (simp add: discard_tile_def)
next
  case True
  show ?thesis
  proof (cases "remove1 tile (drawn_tiles b)")
    case Nil
    with True show ?thesis by (simp add: discard_tile_def register_update_def)
  next
    case (Cons t ts)
    show ?thesis
    proof (cases ts)
      case Nil
      with Cons True show ?thesis
        by (cases t) (simp_all add: discard_tile_def enact_policy_def register_update_def)
    next
      case (Cons u us)
      with \<open>remove1 tile (drawn_tiles b) = t # ts\<close> True show ?thesis
        by (simp add: discard_tile_def register_update_def)
    qed
  qed
qed

lemma progress_add_player:
  "liberal_progress (snd (add_player name b)) = liberal_progress b
   \<and> fascist_progress (snd (add_player name b)) = fascist_progress b"
  by (simp add: add_player_def register_update_def Let_def)

lemma progress_begin_game:
  "liberal_progress (snd (begin_game rs b)) = liberal_progress b
   \<and> fascist_progress (snd (begin_game rs b)) = fascist_progress b"
  by (simp add: begin_game_def register_update_def Let_def split: option.splits prod.splits)

lemma progress_draw_three_tiles:
  "liberal_progress (snd (draw_three_tiles rs b)) = liberal_progress b
   \<and> fascist_progress (snd (draw_three_tiles rs b)) = fascist_progress b"
  by (simp add: draw_three_tiles_def register_update_def Let_def)

lemma progress_advance_president:
  "liberal_progress (snd (advance_president b)) = liberal_progress b
   \<and> fascist_progress (snd (advance_president b)) = fascist_progress b"
  by (simp add: advance_president_def register_update_def Let_def split: sum.splits)

lemma progress_extract_updates:
  "liberal_progress (snd (extract_updates cu b)) = liberal_progress b
   \<and> fascist_progress (snd (extract_updates cu b)) = fascist_progress b"
  by (simp add: extract_updates_def Let_def split: sum.splits option.splits)

lemma progress_get_full_state:
  "liberal_progress (snd (get_full_state b)) = liberal_progress b
   \<and> fascist_progress (snd (get_full_state b)) = fascist_progress b"
  by (simp add: get_full_state_def)

text \<open>
  C10. Whatever public operation is called, and whether it returns or raises, the board
  it leaves has each progress counter at least as large as before the call; and
  \<^verbatim>\<open>discard_tile\<close> either leaves both counters as they were or adds exactly 1 to
  exactly one of them.
\<close>

theorem monotonic_progress:
  "liberal_progress b \<le> liberal_progress (board_after c b)
   \<and> fascist_progress b \<le> fascist_progress (board_after c b)
   \<and> ((liberal_progress (snd (discard_tile tile b)) = liberal_progress b
         \<and> fascist_progress (snd (discard_tile tile b)) = fascist_progress b)
      \<or> (liberal_progress (snd (discard_tile tile b)) = liberal_progress b + 1
         \<and> fascist_progress (snd (discard_tile tile b)) = fascist_progress b)
      \<or> (liberal_progress (snd (discard_tile tile b)) = liberal_progress b
         \<and> fascist_progress (snd (discard_tile tile b)) = fascist_progress b + 1))"
proof -
  have mono: "liberal_progress b \<le> liberal_progress (board_after c b)
              \<and> fascist_progress b \<le> fascist_progress (board_after c b)"
  proof (cases c)
    case (AddPlayer name)
    then show ?thesis using progress_add_player[of name b] by simp
  next
    case (BeginGame rs)
    then show ?thesis using progress_begin_game[of rs b] by simp
  next
    case (DrawThreeTiles rs)
    then show ?thesis using progress_draw_three_tiles[of rs b] by simp
  next
    case (DiscardOneTile t)
    then show ?thesis using discard_tile_progress[of t b] by auto
  next
    case AdvancePresident
    then show ?thesis using progress_advance_president[of b] by simp
  next
    case GetWinner
    then show ?thesis by simp
  next
    case GetCurrentPresidentialPower
    then show ?thesis by simp
  next
    case (ExtractUpdates cu)
    then show ?thesis using progress_extract_updates[of cu b] by simp
  next
    case GetFullState
    then show ?thesis using progress_get_full_state[of b] by simp
  qed
  with discard_tile_progress[of tile b] show ?thesis by blast
qed

theorem monotonic_progress_witness:
  "liberal_progress board_two_drawn \<le> liberal_progress (board_after (DiscardOneTile LIBERAL_POLICY) board_two_drawn)
   \<and> fascist_progress (board_after (DiscardOneTile LIBERAL_POLICY) board_two_drawn) = 1
   \<and> fascist_progress board_two_drawn = 0"
proof -
  have "fascist_progress (board_after (DiscardOneTile LIBERAL_POLICY) board_two_drawn) = 1"
    by code_simp
  moreover have "fascist_progress board_two_drawn = 0" by code_simp
  ultimately show ?thesis
    using monotonic_progress[of board_two_drawn "DiscardOneTile LIBERAL_POLICY" LIBERAL_POLICY]
    by blast
qed

section \<open>The redacted view\<close>


text \<open>
  C3 asks that \<^verbatim>\<open>extract_updates\<close> emits every pending field, transformed, and then
  clears the pending set. After one \<^verbatim>\<open>add_player\<close> the pending set holds
  \<^verbatim>\<open>players\<close>; the call raises \<^verbatim>\<open>NameError\<close>, emits nothing and leaves the pending
  set as it was.
\<close>

theorem extract_updates_raises:
  "updates board_alice = [''players'']
   \<and> extract_updates None board_alice
       = (Inl (NameError ''private_state_translations''), board_alice)"
proof -
  have u: "updates board_alice = [''players'']" by code_simp
  then show ?thesis by (simp add: extract_updates_def)
qed

section \<open>Presidential succession\<close>

text \<open>
  C4 asks that \<^verbatim>\<open>advance_president\<close> on a board with a non-empty roster records the
  current president and moves the president index to the next player. With alice and
  bob on the roster and the index at 0, the call records alice as previous president,
  then raises \<^verbatim>\<open>NameError\<close>; the president index is still 0, not 1.
\<close>

theorem advance_president_raises:
  "players board_alice_bob \<noteq> []
   \<and> president_id board_alice_bob = 0
   \<and> fst (advance_president board_alice_bob) = Inl (NameError ''president_id'')
   \<and> president_id (snd (advance_president board_alice_bob)) = 0
   \<and> map_option player_name (prev_president (snd (advance_president board_alice_bob)))
       = Some ''alice''"
  by code_simp

end
